theory Spec2Isabelle
  imports Complex_Main "HOL-Library.Sublist"
begin

section \<open>Python values used by the citation resolver\<close>

text \<open>
  A Python \<open>str\<close> is a sequence of Unicode code points, so it is modelled as a list of
  natural numbers; \<open>str\<close> turns a literal into such a list. The character classes of
  Python 3.11 (the version the repository deploys on) are written out: \<open>is_space\<close> is
  \<open>str.isspace\<close> and the class \<open>\s\<close> of \<open>re\<close>, \<open>is_digit\<close> is the class \<open>\d\<close> (Unicode
  category Nd, 66 blocks of ten digits in Unicode 14). \<open>str.lower\<close> is modelled on ASCII
  letters only; other code points are left as they are.
\<close>

type_synonym pystr = "nat list"

definition str :: "string \<Rightarrow> pystr" where
  "str s = map of_char s"

definition is_space :: "nat \<Rightarrow> bool" where
  "is_space c = ((9 \<le> c \<and> c \<le> 13) \<or> (28 \<le> c \<and> c \<le> 32) \<or> c = 133 \<or> c = 160
     \<or> c = 5760 \<or> (8192 \<le> c \<and> c \<le> 8202) \<or> c = 8232 \<or> c = 8233 \<or> c = 8239
     \<or> c = 8287 \<or> c = 12288)"

definition digit_zeros :: "nat list" where
  "digit_zeros = [48, 1632, 1776, 1984, 2406, 2534, 2662, 2790, 2918, 3046, 3174, 3302,
     3430, 3558, 3664, 3792, 3872, 4160, 4240, 6112, 6160, 6470, 6608, 6784, 6800, 6992,
     7088, 7232, 7248, 42528, 43216, 43264, 43472, 43504, 43600, 44016, 65296, 66720,
     68912, 69734, 69872, 69942, 70096, 70384, 70736, 70864, 71248, 71360, 71472, 71904,
     72016, 72784, 73040, 73120, 92768, 92864, 93008, 120782, 120792, 120802, 120812,
     120822, 123200, 123632, 125264, 130032]"

definition is_digit :: "nat \<Rightarrow> bool" where
  "is_digit c = (if 48 \<le> c \<and> c \<le> 57 then True
                 else if c < 128 then False
                 else list_ex (\<lambda>z. z \<le> c \<and> c \<le> z + 9) digit_zeros)"

definition digit_val :: "nat \<Rightarrow> nat" where
  "digit_val c = (if 48 \<le> c \<and> c \<le> 57 then c - 48
                  else case filter (\<lambda>z. z \<le> c \<and> c \<le> z + 9) digit_zeros of
                         [] \<Rightarrow> 0 | z # _ \<Rightarrow> c - z)"

definition lower_cp :: "nat \<Rightarrow> nat" where
  "lower_cp c = (if 65 \<le> c \<and> c \<le> 90 then c + 32 else c)"

definition lower :: "pystr \<Rightarrow> pystr" where
  "lower s = map lower_cp s"

definition startswith :: "pystr \<Rightarrow> pystr \<Rightarrow> bool" where
  "startswith s p = prefix p s"

definition endswith :: "pystr \<Rightarrow> pystr \<Rightarrow> bool" where
  "endswith s p = suffix p s"

text \<open>\<open>contains s p\<close> is Python's \<open>p in s\<close>.\<close>

fun contains :: "pystr \<Rightarrow> pystr \<Rightarrow> bool" where
  "contains [] p = (p = [])"
| "contains (c # cs) p = (prefix p (c # cs) \<or> contains cs p)"

definition strip :: "pystr \<Rightarrow> pystr" where
  "strip s = rev (dropWhile is_space (rev (dropWhile is_space s)))"

definition lstrip_chars :: "pystr \<Rightarrow> pystr \<Rightarrow> pystr" where
  "lstrip_chars cs s = dropWhile (\<lambda>c. c \<in> set cs) s"

definition rstrip_chars :: "pystr \<Rightarrow> pystr \<Rightarrow> pystr" where
  "rstrip_chars cs s = rev (dropWhile (\<lambda>c. c \<in> set cs) (rev s))"


text \<open>\<open>split_on d s\<close> is \<open>s.split(d)\<close> for a one-character separator: it never returns
  the empty list.\<close>

fun split_on :: "nat \<Rightarrow> pystr \<Rightarrow> pystr list" where
  "split_on d [] = [[]]"
| "split_on d (c # cs) =
     (if c = d then [] # split_on d cs
      else (case split_on d cs of [] \<Rightarrow> [[c]] | p # ps \<Rightarrow> (c # p) # ps))"

fun join :: "pystr \<Rightarrow> pystr list \<Rightarrow> pystr" where
  "join sep [] = []"
| "join sep [p] = p"
| "join sep (p # q # ps) = p @ sep @ join sep (q # ps)"


text \<open>Values decoded from JSON, which are also the values a citation title can hold:
  the title of an alternative is whatever the assistant's JSON object has under
  \<open>"title"\<close>. A number stands for Python's \<open>int\<close> and \<open>float\<close>.\<close>

datatype json =
    JNull
  | JBool bool
  | JNum real
  | JStr pystr
  | JArr "json list"
  | JObj "(pystr \<times> json) list"

text \<open>Truthiness of a value, as \<open>if v\<close> and \<open>a and b\<close> test it.\<close>

fun truthy :: "json \<Rightarrow> bool" where
  "truthy JNull = False"
| "truthy (JBool b) = b"
| "truthy (JNum x) = (x \<noteq> 0)"
| "truthy (JStr s) = (s \<noteq> [])"
| "truthy (JArr xs) = (xs \<noteq> [])"
| "truthy (JObj kvs) = (kvs \<noteq> [])"

datatype pyexn =
    ValueError
  | TypeError
  | AttributeError
  | JSONDecodeError
  | AsyncTimeoutError
  | HttpxTimeoutException
  | HttpxRequestError
  | OtherException

text \<open>The class \<open>Citation\<close> (\<open>pipeline/models/citation.py\<close>) is read through the three
  fields the resolver uses.\<close>

record citation =
  number :: int
  url :: pystr
  title :: json

section \<open>Regular expressions\<close>

text \<open>
  The patterns of the source are written as terms of \<open>regex\<close> and run by a backtracking
  matcher: \<open>matches r s\<close> lists, in the order in which Python's engine tries them, the
  ways \<open>r\<close> matches a prefix of \<open>s\<close>, each with its captured groups and the rest of the
  string. \<open>Rep greedy lo hi r\<close> is the repetition \<open>r{lo,hi}\<close>, greedy or lazy.
\<close>

datatype regex =
    Chars "nat \<Rightarrow> bool"
  | Lit pystr
  | Seq regex regex
  | Alt regex regex
  | Rep bool nat "nat option" regex
  | Grp nat regex

primrec rsize :: "regex \<Rightarrow> nat" where
  "rsize (Chars P) = 0"
| "rsize (Lit l) = 0"
| "rsize (Seq a b) = Suc (rsize a + rsize b)"
| "rsize (Alt a b) = Suc (rsize a + rsize b)"
| "rsize (Rep g lo hi r) = Suc (rsize r)"
| "rsize (Grp n r) = Suc (rsize r)"

type_synonym caps = "(nat \<times> pystr) list"

function matches :: "regex \<Rightarrow> pystr \<Rightarrow> (caps \<times> pystr) list" where
  "matches (Chars P) s = (case s of [] \<Rightarrow> [] | c # cs \<Rightarrow> if P c then [([], cs)] else [])"
| "matches (Lit l) s = (if prefix l s then [([], drop (length l) s)] else [])"
| "matches (Seq a b) s =
     concat (map (\<lambda>(c1, s1). map (\<lambda>(c2, s2). (c1 @ c2, s2)) (matches b s1)) (matches a s))"
| "matches (Alt a b) s = matches a s @ matches b s"
| "matches (Grp n r) s =
     map (\<lambda>(c, s1). (c @ [(n, take (length s - length s1) s)], s1)) (matches r s)"
| "matches (Rep g lo hi r) s =
     (let more = (if hi = Some 0 then [] else
                    concat (map (\<lambda>(c1, s1).
                      if length s1 < length s
                      then map (\<lambda>(c2, s2). (c1 @ c2, s2))
                             (matches (Rep g (lo - 1) (map_option (\<lambda>h. h - 1) hi) r) s1)
                      else []) (matches r s)));
          stop = (if lo = 0 then [([], s)] else [])
      in if g then more @ stop else stop @ more)"
  by pat_completeness auto
termination
  by (relation "measures [\<lambda>(r, s). rsize r, \<lambda>(r, s). length s]") auto

fun seqs :: "regex list \<Rightarrow> regex" where
  "seqs [] = Lit []"
| "seqs [r] = r"
| "seqs (r # rs) = Seq r (seqs rs)"

abbreviation star :: "regex \<Rightarrow> regex" where
  "star r \<equiv> Rep True 0 None r"

abbreviation plus_re :: "regex \<Rightarrow> regex" where
  "plus_re r \<equiv> Rep True 1 None r"

abbreviation lazy_plus :: "regex \<Rightarrow> regex" where
  "lazy_plus r \<equiv> Rep False 1 None r"

abbreviation opt :: "regex \<Rightarrow> regex" where
  "opt r \<equiv> Rep True 0 (Some 1) r"

text \<open>A match object: the text before the match, the matched text, the groups, and
  the text after the match.\<close>

record re_match_obj =
  pre_text :: pystr
  matched :: pystr
  groups :: caps
  rest_text :: pystr

definition group :: "re_match_obj \<Rightarrow> nat \<Rightarrow> pystr" where
  "group m n = (case map_of (rev (groups m)) n of None \<Rightarrow> [] | Some g \<Rightarrow> g)"

text \<open>\<open>re.match\<close>: the first way the pattern matches at the start of the string.\<close>

definition re_match :: "regex \<Rightarrow> pystr \<Rightarrow> re_match_obj option" where
  "re_match r s =
     (case matches r s of [] \<Rightarrow> None
      | (c, rest) # _ \<Rightarrow>
          Some \<lparr>pre_text = [], matched = take (length s - length rest) s, groups = c,
                rest_text = rest\<rparr>)"

text \<open>\<open>re.search\<close>: the first start position, from the left, at which the pattern
  matches.\<close>

fun re_search :: "regex \<Rightarrow> pystr \<Rightarrow> re_match_obj option" where
  "re_search r [] = re_match r []"
| "re_search r (x # xs) =
     (case re_match r (x # xs) of Some m \<Rightarrow> Some m
      | None \<Rightarrow> map_option (\<lambda>m. m\<lparr>pre_text := x # pre_text m\<rparr>) (re_search r xs))"

text \<open>\<open>re.sub(r, repl, s)\<close> and \<open>re.findall(r, s)\<close> for a pattern that matches no empty
  string (every pattern of the source begins with a literal): the matches are taken from
  the left, without overlap.\<close>

function re_sub :: "regex \<Rightarrow> pystr \<Rightarrow> pystr \<Rightarrow> pystr" where
  "re_sub r repl [] = []"
| "re_sub r repl (x # xs) =
     (case re_match r (x # xs) of
        None \<Rightarrow> x # re_sub r repl xs
      | Some m \<Rightarrow> if length (rest_text m) < length (x # xs) then repl @ re_sub r repl (rest_text m)
                  else x # re_sub r repl xs)"
  by pat_completeness auto
termination
  by (relation "measure (\<lambda>(r, repl, s). length s)") auto

function re_findall :: "regex \<Rightarrow> pystr \<Rightarrow> pystr list" where
  "re_findall r [] = []"
| "re_findall r (x # xs) =
     (case re_match r (x # xs) of
        None \<Rightarrow> re_findall r xs
      | Some m \<Rightarrow> if length (rest_text m) < length (x # xs) then matched m # re_findall r (rest_text m)
                  else re_findall r xs)"
  by pat_completeness auto
termination
  by (relation "measure (\<lambda>(r, s). length s)") auto

section \<open>The citation parser (\<open>stage_04_citations.py\<close>)\<close>

text \<open>
  \<open>int\<close> of a string of more than 4300 digits raises \<open>ValueError\<close> in Python 3.11; the
  parser calls it outside its \<open>try\<close> blocks. The constructor \<open>Citation(...)\<close> belongs to a
  module that is not part of the sources read here; it either returns the record or
  raises inside the parser's \<open>try\<close>, so it is the parameter \<open>ok\<close> of the parser.
\<close>

definition py_int :: "pystr \<Rightarrow> pyexn + int" where
  "py_int ds = (if length ds > 4300 then Inl ValueError
                else Inr (int (foldl (\<lambda>a c. 10 * a + digit_val c) 0 ds)))"

text \<open>
  The character classes: \<^verbatim>\<open>\s\<close>, \<^verbatim>\<open>[^\s]\<close>, \<^verbatim>\<open>\d\<close>, \<^verbatim>\<open>.\<close> (no flag: any character but the
  line feed) and the class of the en dash (U+2013) and the hyphen; then \<^verbatim>\<open>https?://\<close>.
\<close>

definition re_ws :: regex where "re_ws = Chars is_space"
definition re_nonws :: regex where "re_nonws = Chars (\<lambda>c. \<not> is_space c)"
definition re_digit :: regex where "re_digit = Chars is_digit"
definition re_dot :: regex where "re_dot = Chars (\<lambda>c. c \<noteq> 10)"
definition re_dash :: regex where "re_dash = Chars (\<lambda>c. c = 8211 \<or> c = 45)"
definition re_http :: regex where
  "re_http = seqs [Lit (str ''http''), opt (Lit (str ''s'')), Lit (str ''://'')]"

text \<open>
  The patterns of \<open>_parse_sources\<close>, in the order of the source (the dash class holds the
  en dash U+2013, written here as \<open>E\<close>):
  \<^verbatim>\<open>\[(\d+)\]:\s*(https?://[^\s]+?)(?:\s+[E\-]\s+|\s+)(.+)\<close>,
  \<^verbatim>\<open>\[(\d+)\]:\s*(https?://[^\s]+)\s+(.+)\<close>,
  \<^verbatim>\<open>\[(\d+)\]:\s*(.+)\<close>,
  \<^verbatim>\<open>https?://[^\sE\-\)\]\}]+\<close> and
  \<^verbatim>\<open>https?://[^\s]+\s*[E\-]?\s*\<close>.
\<close>

definition citation_line_re :: regex where
  "citation_line_re = seqs [Lit (str ''[''), Grp 1 (plus_re re_digit), Lit (str '']:''), star re_ws,
     Grp 2 (seqs [re_http, lazy_plus re_nonws]),
     Alt (seqs [plus_re re_ws, re_dash, plus_re re_ws]) (plus_re re_ws),
     Grp 3 (plus_re re_dot)]"

definition citation_line_ws_re :: regex where
  "citation_line_ws_re = seqs [Lit (str ''[''), Grp 1 (plus_re re_digit), Lit (str '']:''), star re_ws,
     Grp 2 (seqs [re_http, plus_re re_nonws]), plus_re re_ws, Grp 3 (plus_re re_dot)]"

definition citation_text_re :: regex where
  "citation_text_re = seqs [Lit (str ''[''), Grp 1 (plus_re re_digit), Lit (str '']:''), star re_ws,
     Grp 2 (plus_re re_dot)]"

definition embedded_url_re :: regex where
  "embedded_url_re = seqs [re_http,
     plus_re (Chars (\<lambda>c. \<not> is_space c \<and> c \<noteq> 8211 \<and> c \<noteq> 45 \<and> c \<noteq> 41 \<and> c \<noteq> 93 \<and> c \<noteq> 125))]"

definition url_and_separator_re :: regex where
  "url_and_separator_re = seqs [re_http, plus_re re_nonws, star re_ws, opt re_dash, star re_ws]"

definition new_citation :: "(int \<Rightarrow> pystr \<Rightarrow> pystr \<Rightarrow> bool) \<Rightarrow> int \<Rightarrow> pystr \<Rightarrow> pystr \<Rightarrow> citation option" where
  "new_citation ok n u t = (if ok n u t then Some \<lparr>number = n, url = u, title = JStr t\<rparr> else None)"

definition parse_line :: "(int \<Rightarrow> pystr \<Rightarrow> pystr \<Rightarrow> bool) \<Rightarrow> pystr \<Rightarrow> pyexn + citation option" where
  "parse_line ok line0 =
     (let line = strip line0 in
      if line = [] then Inr None
      else (case (case re_match citation_line_re line of
                    None \<Rightarrow> re_match citation_line_ws_re line | Some m \<Rightarrow> Some m) of
              Some m \<Rightarrow>
                (case py_int (group m 1) of
                   Inl e \<Rightarrow> Inl e
                 | Inr n \<Rightarrow> Inr (new_citation ok n (strip (group m 2)) (strip (group m 3))))
            | None \<Rightarrow>
                (case re_match citation_text_re line of
                   None \<Rightarrow> Inr None
                 | Some m \<Rightarrow>
                     (case py_int (group m 1) of
                        Inl e \<Rightarrow> Inl e
                      | Inr n \<Rightarrow>
                          (let content = strip (group m 2) in
                           case re_search embedded_url_re content of
                             None \<Rightarrow> Inr None
                           | Some um \<Rightarrow>
                               (let u = rstrip_chars (str ''.,;:!?)'') (matched um);
                                    t0 = strip (re_sub url_and_separator_re [] content);
                                    t = (if t0 = [] then u else t0)
                                in if startswith u (str ''/'') then Inr None
                                   else Inr (new_citation ok n u t)))))))"

fun parse_lines :: "(int \<Rightarrow> pystr \<Rightarrow> pystr \<Rightarrow> bool) \<Rightarrow> pystr list \<Rightarrow> pyexn + citation list" where
  "parse_lines ok [] = Inr []"
| "parse_lines ok (l # ls) =
     (case parse_line ok l of
        Inl e \<Rightarrow> Inl e
      | Inr oc \<Rightarrow>
          (case parse_lines ok ls of
             Inl e \<Rightarrow> Inl e
           | Inr cs \<Rightarrow> Inr (case oc of None \<Rightarrow> cs | Some c \<Rightarrow> c # cs)))"

definition renumber :: "citation list \<Rightarrow> citation list" where
  "renumber cs = map (\<lambda>(i, c). c\<lparr>number := int i\<rparr>) (zip [1..<Suc (length cs)] cs)"

definition parse_sources :: "(int \<Rightarrow> pystr \<Rightarrow> pystr \<Rightarrow> bool) \<Rightarrow> pystr \<Rightarrow> pyexn + citation list" where
  "parse_sources ok sources_text =
     (case parse_lines ok (split_on 10 (strip sources_text)) of
        Inl e \<Rightarrow> Inl e
      | Inr cs \<Rightarrow> Inr (renumber cs))"

section \<open>The Python library: \<open>urllib.parse\<close>\<close>

text \<open>
  \<open>urlparse\<close> and \<open>urlunparse\<close> are transcribed from \<open>urllib/parse.py\<close> of CPython 3.11.
  \<open>urlsplit\<close> raises \<open>ValueError\<close> on a network location with an unmatched bracket, on a
  bracketed host that is no IPv6 or IPvFuture address, and on a non-ASCII network location
  that changes under NFKC normalisation. The last two tests, \<open>json.loads\<close> (on a text that
  begins with a brace it returns a dictionary or raises) and \<open>str()\<close> of a value are
  parameters of the model, collected in \<open>pylib\<close>.
\<close>

record pylib =
  json_loads :: "pystr \<Rightarrow> (pystr \<times> json) list option"
  bracketed_host_ok :: "pystr \<Rightarrow> bool"
  nfkc_netloc_ok :: "pystr \<Rightarrow> bool"
  py_str :: "json \<Rightarrow> pystr"

record parse_result =
  scheme :: pystr
  netloc :: pystr
  path :: pystr
  params :: pystr
  query :: pystr
  fragment :: pystr

definition uses_netloc :: "pystr list" where
  "uses_netloc = map str ['''', ''ftp'', ''http'', ''gopher'', ''nntp'', ''telnet'',
     ''imap'', ''wais'', ''file'', ''mms'', ''https'', ''shttp'', ''snews'', ''prospero'',
     ''rtsp'', ''rtsps'', ''rtspu'', ''rsync'', ''svn'', ''svn+ssh'', ''sftp'', ''nfs'',
     ''git'', ''git+ssh'', ''ws'', ''wss'']"

definition uses_params :: "pystr list" where
  "uses_params = map str ['''', ''ftp'', ''hdl'', ''prospero'', ''http'', ''imap'',
     ''https'', ''shttp'', ''rtsp'', ''rtsps'', ''rtspu'', ''sip'', ''sips'', ''mms'',
     ''sftp'', ''tel'']"

definition is_ascii_alpha :: "nat \<Rightarrow> bool" where
  "is_ascii_alpha c = ((65 \<le> c \<and> c \<le> 90) \<or> (97 \<le> c \<and> c \<le> 122))"

definition is_scheme_char :: "nat \<Rightarrow> bool" where
  "is_scheme_char c = (is_ascii_alpha c \<or> (48 \<le> c \<and> c \<le> 57) \<or> c = 43 \<or> c = 45 \<or> c = 46)"

text \<open>\<open>split_first d s\<close> is \<open>s.split(d, 1)\<close> for a string that contains \<open>d\<close>.\<close>

definition split_first :: "nat \<Rightarrow> pystr \<Rightarrow> pystr \<times> pystr" where
  "split_first d s = (takeWhile (\<lambda>c. c \<noteq> d) s, drop 1 (dropWhile (\<lambda>c. c \<noteq> d) s))"

definition split_scheme :: "pystr \<Rightarrow> pystr \<times> pystr" where
  "split_scheme u =
     (let i = length (takeWhile (\<lambda>c. c \<noteq> 58) u) in
      if 58 \<in> set u \<and> 0 < i \<and> is_ascii_alpha (hd u) \<and> list_all is_scheme_char (take i u)
      then (lower (take i u), drop (Suc i) u)
      else ([], u))"

definition splitnetloc :: "pystr \<Rightarrow> pystr \<times> pystr" where
  "splitnetloc u = (takeWhile (\<lambda>c. c \<noteq> 47 \<and> c \<noteq> 63 \<and> c \<noteq> 35) u,
                    dropWhile (\<lambda>c. c \<noteq> 47 \<and> c \<noteq> 63 \<and> c \<noteq> 35) u)"

definition bracketed_host :: "pystr \<Rightarrow> pystr" where
  "bracketed_host nl = takeWhile (\<lambda>c. c \<noteq> 93) (drop 1 (dropWhile (\<lambda>c. c \<noteq> 91) nl))"

definition netloc_raises :: "pylib \<Rightarrow> pystr \<Rightarrow> bool" where
  "netloc_raises L nl =
     ((91 \<in> set nl \<and> 93 \<notin> set nl) \<or> (93 \<in> set nl \<and> 91 \<notin> set nl)
      \<or> (91 \<in> set nl \<and> 93 \<in> set nl \<and> \<not> bracketed_host_ok L (bracketed_host nl)))"

definition checknetloc_raises :: "pylib \<Rightarrow> pystr \<Rightarrow> bool" where
  "checknetloc_raises L nl = (nl \<noteq> [] \<and> \<not> list_all (\<lambda>c. c < 128) nl \<and> \<not> nfkc_netloc_ok L nl)"

definition urlsplit :: "pylib \<Rightarrow> pystr \<Rightarrow> pyexn + (pystr \<times> pystr \<times> pystr \<times> pystr \<times> pystr)" where
  "urlsplit L u0 =
     (let u1 = dropWhile (\<lambda>c. c \<le> 32) u0;
          u2 = filter (\<lambda>c. c \<noteq> 9 \<and> c \<noteq> 13 \<and> c \<noteq> 10) u1;
          (sch, u3) = split_scheme u2;
          has_netloc = (take 2 u3 = str ''//'');
          (nl, u4) = (if has_netloc then splitnetloc (drop 2 u3) else ([], u3))
      in if has_netloc \<and> netloc_raises L nl then Inl ValueError
         else
           (let (u5, frag) = (if 35 \<in> set u4 then split_first 35 u4 else (u4, []));
                (u6, qry) = (if 63 \<in> set u5 then split_first 63 u5 else (u5, []))
            in if checknetloc_raises L nl then Inl ValueError
               else Inr (sch, nl, u6, qry, frag)))"

definition splitparams :: "pystr \<Rightarrow> pystr \<times> pystr" where
  "splitparams u =
     (if 47 \<in> set u then
        (let k = length u - Suc (length (takeWhile (\<lambda>c. c \<noteq> 47) (rev u)));
             tail = drop k u
         in if 59 \<in> set tail
            then (let i = k + length (takeWhile (\<lambda>c. c \<noteq> 59) tail) in (take i u, drop (Suc i) u))
            else (u, []))
      else split_first 59 u)"

definition urlparse :: "pylib \<Rightarrow> pystr \<Rightarrow> pyexn + parse_result" where
  "urlparse L u =
     (case urlsplit L u of
        Inl e \<Rightarrow> Inl e
      | Inr (sch, nl, p, qry, frag) \<Rightarrow>
          (let (p', prm) = (if sch \<in> set uses_params \<and> 59 \<in> set p then splitparams p else (p, []))
           in Inr \<lparr>scheme = sch, netloc = nl, path = p', params = prm, query = qry,
                    fragment = frag\<rparr>))"

definition urlunsplit :: "pystr \<Rightarrow> pystr \<Rightarrow> pystr \<Rightarrow> pystr \<Rightarrow> pystr \<Rightarrow> pystr" where
  "urlunsplit sch nl p qry frag =
     (let u1 = (if nl \<noteq> [] \<or> (sch \<noteq> [] \<and> sch \<in> set uses_netloc) \<or> take 2 p = str ''//''
                then str ''//'' @ nl @ (if p \<noteq> [] \<and> take 1 p \<noteq> str ''/'' then str ''/'' @ p else p)
                else p);
          u2 = (if sch \<noteq> [] then sch @ str '':'' @ u1 else u1);
          u3 = (if qry \<noteq> [] then u2 @ str ''?'' @ qry else u2)
      in if frag \<noteq> [] then u3 @ str ''#'' @ frag else u3)"

definition urlunparse :: "parse_result \<Rightarrow> pystr" where
  "urlunparse r =
     urlunsplit (scheme r) (netloc r)
       (if params r \<noteq> [] then path r @ str '';'' @ params r else path r)
       (query r) (fragment r)"

definition is_tracking_param :: "pystr \<Rightarrow> bool" where
  "is_tracking_param param =
     (startswith (lower param) (str ''utm_'') \<or> startswith (lower param) (str ''gclid'')
      \<or> startswith (lower param) (str ''fbclid''))"

definition normalize_url :: "pylib \<Rightarrow> pystr \<Rightarrow> pyexn + pystr" where
  "normalize_url L u0 =
     (let u1 = strip u0;
          u2 = (if startswith u1 (str ''http://'') \<or> startswith u1 (str ''https://'') then u1
                else str ''https://'' @ u1)
      in case urlparse L u2 of
           Inl e \<Rightarrow> Inl e
         | Inr parsed \<Rightarrow>
             (let query_params = filter (\<lambda>param. param \<noteq> [] \<and> \<not> is_tracking_param param)
                                    (split_on 38 (query parsed))
              in if query_params \<noteq> []
                 then Inr (urlunparse (parsed\<lparr>query := join (str ''&'') query_params\<rparr>))
                 else Inr (urlunparse (parsed\<lparr>query := []\<rparr>))))"

text \<open>\<open>clean s\<close>: \<open>s\<close> has none of the characters that \<open>urlsplit\<close> removes from a URL
  (tab, carriage return, line feed).\<close>

definition clean :: "pystr \<Rightarrow> bool" where
  "clean s = (\<forall>c\<in>set s. c \<noteq> 9 \<and> c \<noteq> 13 \<and> c \<noteq> 10)"

section \<open>The domain filter and the specific-page test (\<open>url_validator.py\<close>)\<close>

text \<open>\<open>should_filter_url_try\<close> is the body of the \<open>try\<close> block of \<open>_should_filter_url\<close>;
  the function itself returns \<open>False\<close> when the body raises.\<close>

definition FORBIDDEN_HOSTS :: "pystr set" where
  "FORBIDDEN_HOSTS = {str ''vertexaisearch.cloud.google.com'', str ''cloud.google.com''}"

definition normalize_hostname :: "pystr \<Rightarrow> pystr" where
  "normalize_hostname hostname =
     (if hostname = [] then []
      else (let h = lstrip_chars (str ''.'') (lower hostname)
            in if startswith h (str ''www.'') then drop 4 h else h))"

definition is_subdomain :: "pystr \<Rightarrow> pystr \<Rightarrow> bool" where
  "is_subdomain host root_host =
     (if host = [] \<or> root_host = [] then False else endswith host (str ''.'' @ root_host))"

definition competitor_url :: "pystr \<Rightarrow> pystr" where
  "competitor_url competitor =
     (if startswith competitor (str ''http'') then competitor else str ''https://'' @ competitor)"

fun filter_competitors :: "pylib \<Rightarrow> pystr \<Rightarrow> pystr list \<Rightarrow> pyexn + bool" where
  "filter_competitors L host [] = Inr False"
| "filter_competitors L host (competitor # rest) =
     (let comp_url = competitor_url competitor
      in case urlparse L comp_url of
           Inl e \<Rightarrow> Inl e
         | Inr comp_parsed \<Rightarrow>
             (let comp_host = normalize_hostname (netloc comp_parsed)
              in if host = comp_host \<or> is_subdomain host comp_host then Inr True
                 else filter_competitors L host rest))"

definition should_filter_url_try :: "pylib \<Rightarrow> pystr \<Rightarrow> pystr \<Rightarrow> pystr list \<Rightarrow> pyexn + bool" where
  "should_filter_url_try L u company_url competitors =
     (case urlparse L u of
        Inl e \<Rightarrow> Inl e
      | Inr parsed \<Rightarrow>
          (let host = normalize_hostname (netloc parsed)
           in if host \<in> FORBIDDEN_HOSTS then Inr True
              else if company_url \<noteq> [] then
                (case urlparse L company_url of
                   Inl e \<Rightarrow> Inl e
                 | Inr company_parsed \<Rightarrow>
                     (let company_host = normalize_hostname (netloc company_parsed)
                      in if host = company_host \<or> is_subdomain host company_host then Inr True
                         else filter_competitors L host competitors))
              else filter_competitors L host competitors))"

definition should_filter_url :: "pylib \<Rightarrow> pystr \<Rightarrow> pystr \<Rightarrow> pystr list \<Rightarrow> bool" where
  "should_filter_url L u company_url competitors =
     (case should_filter_url_try L u company_url competitors of
        Inl e \<Rightarrow> False
      | Inr b \<Rightarrow> b)"

text \<open>The normalised host of a URL, when the URL parses, and the test the filter applies
  to the own domain and to each competitor: equality or a subdomain at a dot.\<close>

definition url_host :: "pylib \<Rightarrow> pystr \<Rightarrow> pystr option" where
  "url_host L u =
     (case urlparse L u of Inl e \<Rightarrow> None
      | Inr parsed \<Rightarrow> Some (normalize_hostname (netloc parsed)))"

definition host_matches :: "pystr \<Rightarrow> pystr \<Rightarrow> bool" where
  "host_matches host h = (host = h \<or> is_subdomain host h)"


section \<open>The validator and the world it talks to (\<open>url_validator.py\<close>)\<close>

text \<open>
  The validator reaches the outside through HTTP requests, the assistant's
  \<open>generate_content\<close> and the clock. A \<open>world\<close> gives the answer to each outbound call,
  indexed by the number of calls made before it, and the value of each reading of
  \<open>time.time()\<close>, so that the same request may be answered differently at different
  moments. The state of the validator holds the two module-level caches, the list of the
  outbound calls made so far and the number of clock readings. The validator is taken to
  have an assistant client, as the stage constructs it.
\<close>

datatype http_outcome = Response int pystr | HttpRaises pyexn

record world =
  http_head :: "nat \<Rightarrow> pystr \<Rightarrow> http_outcome"
  http_get :: "nat \<Rightarrow> pystr \<Rightarrow> http_outcome"
  generate_content :: "nat \<Rightarrow> pystr \<Rightarrow> pyexn + pystr"
  time_time :: "nat \<Rightarrow> real"

datatype call = Head pystr | Get pystr | Generate pystr

record vstate =
  url_status_cache :: "pystr \<rightharpoonup> bool \<times> pystr \<times> real"
  authority_cache :: "pystr \<rightharpoonup> (pystr \<times> pystr) option \<times> real"
  calls :: "call list"
  clock_reads :: nat

definition CACHE_TTL :: real where "CACHE_TTL = 180"
definition FAILED_URL_TTL :: real where "FAILED_URL_TTL = 60"

definition read_clock :: "world \<Rightarrow> vstate \<Rightarrow> real \<times> vstate" where
  "read_clock W s = (time_time W (clock_reads s), s\<lparr>clock_reads := Suc (clock_reads s)\<rparr>)"

definition do_head :: "world \<Rightarrow> vstate \<Rightarrow> pystr \<Rightarrow> http_outcome \<times> vstate" where
  "do_head W s u = (http_head W (length (calls s)) u, s\<lparr>calls := calls s @ [Head u]\<rparr>)"

definition do_get :: "world \<Rightarrow> vstate \<Rightarrow> pystr \<Rightarrow> http_outcome \<times> vstate" where
  "do_get W s u = (http_get W (length (calls s)) u, s\<lparr>calls := calls s @ [Get u]\<rparr>)"

definition do_generate :: "world \<Rightarrow> vstate \<Rightarrow> pystr \<Rightarrow> (pyexn + pystr) \<times> vstate" where
  "do_generate W s prompt =
     (generate_content W (length (calls s)) prompt, s\<lparr>calls := calls s @ [Generate prompt]\<rparr>)"

definition error_patterns :: "pystr list" where
  "error_patterns = map str [''/notfound'', ''/not-found'', ''/404'', ''/error'',
     ''notfound.aspx'', ''/notfound.aspx'', ''/page-not-found'', ''/404-error'']"

definition is_error_page_url :: "pystr \<Rightarrow> bool" where
  "is_error_page_url u = list_ex (\<lambda>pattern. contains (lower u) pattern) error_patterns"

definition fresh_status :: "(bool \<times> pystr \<times> real) option \<Rightarrow> real \<Rightarrow> (bool \<times> pystr) option" where
  "fresh_status entry current_time =
     (case entry of
        None \<Rightarrow> None
      | Some (is_valid, final_url, timestamp) \<Rightarrow>
          (let cache_ttl = (if is_valid then CACHE_TTL else FAILED_URL_TTL)
           in if current_time - timestamp < cache_ttl then Some (is_valid, final_url) else None))"

definition cache_status :: "vstate \<Rightarrow> pystr \<Rightarrow> bool \<times> pystr \<times> real \<Rightarrow> vstate" where
  "cache_status s u entry = s\<lparr>url_status_cache := (url_status_cache s)(u \<mapsto> entry)\<rparr>"

definition check_url_status :: "world \<Rightarrow> vstate \<Rightarrow> pystr \<Rightarrow> (bool \<times> pystr) \<times> vstate" where
  "check_url_status W s0 u =
     (let (current_time, s1) = read_clock W s0 in
      case fresh_status (url_status_cache s1 u) current_time of
        Some hit \<Rightarrow> (hit, s1)
      | None \<Rightarrow>
          (let (response, s2) = do_head W s1 u in
           case response of
             HttpRaises e \<Rightarrow> ((False, u), s2)
           | Response status_code final_url \<Rightarrow>
               if status_code = 200 then
                 (if is_error_page_url final_url
                  then ((False, final_url), cache_status s2 u (False, final_url, current_time))
                  else ((True, final_url), cache_status s2 u (True, final_url, current_time)))
               else if status_code = 404 then
                 ((False, final_url), cache_status s2 u (False, final_url, current_time))
               else if status_code \<in> {301, 302, 303, 307, 308} then
                 (let (get_response, s3) = do_get W s2 final_url in
                  case get_response of
                    Response get_status final_redirect_url \<Rightarrow>
                      if get_status = 200 \<and> \<not> is_error_page_url final_redirect_url
                      then ((True, final_redirect_url),
                            cache_status s3 u (True, final_redirect_url, current_time))
                      else ((False, final_redirect_url),
                            cache_status s3 u (False, final_redirect_url, current_time))
                  | HttpRaises e \<Rightarrow>
                      if e = AsyncTimeoutError
                      then ((False, final_url), cache_status s3 u (False, final_url, current_time))
                      else ((False, u), s3))
               else ((False, final_url), cache_status s2 u (False, final_url, current_time))))"

text \<open>The citation markers removed from a title: \<^verbatim>\<open>\[\d+\]\<close>.\<close>

definition citation_marker_re :: regex where
  "citation_marker_re = seqs [Lit (str ''[''), plus_re re_digit, Lit (str '']'')]"

definition build_search_query :: "json \<Rightarrow> pyexn + pystr" where
  "build_search_query t =
     (case t of
        JStr ts \<Rightarrow>
          (let q = re_sub citation_marker_re [] (strip ts)
           in Inr (if length q > 100 then take 100 q @ str ''...'' else q))
      | _ \<Rightarrow> Inl AttributeError)"

definition py_get :: "(pystr \<times> json) list \<Rightarrow> pystr \<Rightarrow> json" where
  "py_get data k = (case map_of data k of None \<Rightarrow> JNull | Some v \<Rightarrow> v)"

text \<open>
  The patterns run on the assistant's answer; \<^verbatim>\<open>[^}]\<close> also matches a line feed, so the flag
  \<open>re.DOTALL\<close> of the first changes nothing:
  \<^verbatim>\<open>\{[^}]*"url"[^}]*"verified"[^}]*\}\<close>,
  \<^verbatim>\<open>\{[^}]*"url"[^}]*\}\<close>,
  \<^verbatim>\<open>\{[^}]*"url_meta_title"[^}]*\}\<close>,
  \<^verbatim>\<open>\{[^}]+\}\<close> and the URL pattern
  \<^verbatim>\<open>https?://[^\s\)\]\>\"\']+\<close>.
\<close>

definition re_notbrace :: regex where "re_notbrace = Chars (\<lambda>c. c \<noteq> 125)"

definition json_url_verified_re :: regex where
  \<open>json_url_verified_re = seqs [Lit (str ''{''), star re_notbrace, Lit (str ''"url"''),
     star re_notbrace, Lit (str ''"verified"''), star re_notbrace, Lit (str ''}'')]\<close>

definition json_url_re :: regex where
  \<open>json_url_re = seqs [Lit (str ''{''), star re_notbrace, Lit (str ''"url"''),
     star re_notbrace, Lit (str ''}'')]\<close>

definition json_meta_title_re :: regex where
  \<open>json_meta_title_re = seqs [Lit (str ''{''), star re_notbrace, Lit (str ''"url_meta_title"''),
     star re_notbrace, Lit (str ''}'')]\<close>

definition json_object_re :: regex where
  "json_object_re = seqs [Lit (str ''{''), plus_re re_notbrace, Lit (str ''}'')]"

definition url_token_re :: regex where
  "url_token_re = seqs [re_http,
     plus_re (Chars (\<lambda>c. \<not> is_space c \<and> c \<noteq> 41 \<and> c \<noteq> 93 \<and> c \<noteq> 62 \<and> c \<noteq> 34 \<and> c \<noteq> 39))]"

text \<open>
  \<^verbatim>\<open>(?:title|meta)[:\s]+["']?([^"']{10,80})["']?\<close> under \<open>re.I\<close>: a letter matches in both
  cases, and \<open>i\<close> also matches the dotted capital and the dotless small i (U+0130, U+0131).
\<close>

definition ci :: "string \<Rightarrow> regex" where
  "ci w = seqs (map (\<lambda>ch. Chars (\<lambda>c. lower_cp c = of_char ch
                      \<or> (ch = CHR ''i'' \<and> (c = 304 \<or> c = 305)))) w)"

definition title_before_url_re :: regex where
  "title_before_url_re = seqs [Alt (ci ''title'') (ci ''meta''),
     plus_re (Chars (\<lambda>c. c = 58 \<or> is_space c)),
     opt (Chars (\<lambda>c. c = 34 \<or> c = 39)),
     Grp 1 (Rep True 10 (Some 80) (Chars (\<lambda>c. c \<noteq> 34 \<and> c \<noteq> 39))),
     opt (Chars (\<lambda>c. c = 34 \<or> c = 39))]"

fun find_sub :: "pystr \<Rightarrow> pystr \<Rightarrow> nat option" where
  "find_sub [] p = (if p = [] then Some 0 else None)"
| "find_sub (c # cs) p = (if prefix p (c # cs) then Some 0 else map_option Suc (find_sub cs p))"

definition extract_urls_from_response :: "pylib \<Rightarrow> pystr \<Rightarrow> json list" where
  "extract_urls_from_response L response_text =
     (let urls = map JStr (filter (\<lambda>u. u \<noteq> [])
                   (map (rstrip_chars (str ''.,;:!?)'')) (re_findall url_token_re response_text)))
      in case re_search json_url_re response_text of
           None \<Rightarrow> urls
         | Some json_match \<Rightarrow>
             (case json_loads L (matched json_match) of
                None \<Rightarrow> urls
              | Some data \<Rightarrow> (case map_of data (str ''url'') of None \<Rightarrow> urls | Some v \<Rightarrow> v # urls)))"

definition extract_title_from_response :: "pylib \<Rightarrow> pystr \<Rightarrow> pystr \<Rightarrow> json option" where
  "extract_title_from_response L response_text u =
     (case (case re_search json_meta_title_re response_text of
              None \<Rightarrow> None
            | Some json_match \<Rightarrow>
                (case json_loads L (matched json_match) of
                   None \<Rightarrow> None
                 | Some data \<Rightarrow> map_of data (str ''url_meta_title''))) of
        Some v \<Rightarrow> Some v
      | None \<Rightarrow>
          (case find_sub response_text u of
             None \<Rightarrow> None
           | Some url_index \<Rightarrow>
               if 0 < url_index then
                 (let before_url = drop (url_index - 200) (take url_index response_text)
                  in case re_search title_before_url_re before_url of
                       None \<Rightarrow> None
                     | Some title_match \<Rightarrow> Some (JStr (strip (group title_match 1))))
               else None))"


definition alternative_prompt :: "pystr \<Rightarrow> pystr \<Rightarrow> pystr list \<Rightarrow> pystr" where
  \<open>alternative_prompt search_query company_url competitors = join [10]
     [str ''Use GoogleSearch to find ONE authoritative source about: '' @ search_query,
      [],
      str ''Prioritize: .edu .gov .org major publications (Forbes, McKinsey, Harvard Business Review, Nature, WHO, etc.)'',
      [],
      str ''Return ONLY JSON:'',
      str ''{"url": "https://authority-site.com/article", "title": "Article Title", "verified": true}'',
      [],
      str ''AVOID:'',
      str ''- '' @ (if company_url \<noteq> [] then company_url else str ''company sites''),
      str ''- Competitors: '' @ (if competitors \<noteq> [] then join (str '', '') (take 2 competitors)
                                 else str ''none''),
      str ''- Social media, forums, personal blogs'',
      [],
      str ''If no authority source found: {"url": "", "verified": false}'']\<close>



definition authority_patterns :: "(pystr list \<times> (pystr \<times> pystr) list) list" where
  "authority_patterns =
     [(map str [''business'', ''finance'', ''economy'', ''revenue'', ''profit'', ''market'', ''enterprise''],
       [(str ''https://www.investopedia.com/'', str ''Investopedia''),
        (str ''https://hbr.org/'', str ''Harvard Business Review''),
        (str ''https://www.census.gov/'', str ''U.S. Census Bureau''),
        (str ''https://www.brookings.edu/'', str ''Brookings Institution'')]),
      (map str [''ai'', ''artificial intelligence'', ''machine learning'', ''technology'', ''software'', ''automation''],
       [(str ''https://www.nist.gov/'', str ''NIST''),
        (str ''https://www.nature.com/'', str ''Nature''),
        (str ''https://techcrunch.com/'', str ''TechCrunch''),
        (str ''https://www.ieee.org/'', str ''IEEE'')]),
      (map str [''health'', ''medical'', ''healthcare'', ''patient'', ''treatment'', ''clinical''],
       [(str ''https://www.who.int/'', str ''World Health Organization''),
        (str ''https://www.nejm.org/'', str ''New England Journal of Medicine''),
        (str ''https://www.nih.gov/'', str ''National Institutes of Health''),
        (str ''https://jamanetwork.com/'', str ''JAMA Network'')]),
      (map str [''manufacturing'', ''industry'', ''production'', ''factory'', ''industrial''],
       [(str ''https://www.manufacturing.net/'', str ''Manufacturing.net''),
        (str ''https://www.industryweek.com/'', str ''IndustryWeek''),
        (str ''https://www.nist.gov/'', str ''NIST'')]),
      (map str [''marketing'', ''advertising'', ''digital'', ''content'', ''email'', ''automation'', ''campaign''],
       [(str ''https://hbr.org/'', str ''Harvard Business Review''),
        (str ''https://www.statista.com/'', str ''Statista''),
        (str ''https://techcrunch.com/'', str ''TechCrunch''),
        (str ''https://www.pewresearch.org/'', str ''Pew Research Center'')]),
      (map str [''research'', ''study'', ''report'', ''data'', ''statistics''],
       [(str ''https://www.pewresearch.org/'', str ''Pew Research Center''),
        (str ''https://www.census.gov/'', str ''U.S. Census Bureau''),
        (str ''https://www.statista.com/'', str ''Statista''),
        (str ''https://www.brookings.edu/'', str ''Brookings'')])]"

definition fresh_authority ::
  "((pystr \<times> pystr) option \<times> real) option \<Rightarrow> real \<Rightarrow> (pystr \<times> pystr) option option" where
  "fresh_authority entry current_time =
     (case entry of
        None \<Rightarrow> None
      | Some (cached_result, timestamp) \<Rightarrow>
          if current_time - timestamp < CACHE_TTL then Some cached_result else None)"

text \<open>The inner loop of the fallback, over the URLs of one pattern: the first URL that is
  not filtered and whose status check succeeds, with its source name.\<close>

fun try_authority_urls ::
  "pylib \<Rightarrow> world \<Rightarrow> pystr \<Rightarrow> pystr list \<Rightarrow> (pystr \<times> pystr) list \<Rightarrow> vstate
     \<Rightarrow> (pystr \<times> pystr) option \<times> vstate" where
  "try_authority_urls L W company_url competitors [] s = (None, s)"
| "try_authority_urls L W company_url competitors ((base_url, source_name) # rest) s =
     (if should_filter_url L base_url company_url competitors
      then try_authority_urls L W company_url competitors rest s
      else (case check_url_status W s base_url of
              ((is_valid, final_url), s') \<Rightarrow>
                if is_valid then (Some (final_url, source_name), s')
                else try_authority_urls L W company_url competitors rest s'))"

fun try_authority_patterns ::
  "pylib \<Rightarrow> world \<Rightarrow> pystr \<Rightarrow> pystr list \<Rightarrow> pystr
     \<Rightarrow> (pystr list \<times> (pystr \<times> pystr) list) list \<Rightarrow> vstate
     \<Rightarrow> (pystr \<times> pystr) option \<times> vstate" where
  "try_authority_patterns L W company_url competitors query_lower [] s = (None, s)"
| "try_authority_patterns L W company_url competitors query_lower ((keywords, urls) # rest) s =
     (if list_ex (\<lambda>keyword. contains query_lower keyword) keywords
      then (case try_authority_urls L W company_url competitors urls s of
              (Some found, s') \<Rightarrow> (Some found, s')
            | (None, s') \<Rightarrow> try_authority_patterns L W company_url competitors query_lower rest s')
      else try_authority_patterns L W company_url competitors query_lower rest s)"

definition try_authority_fallback ::
  "pylib \<Rightarrow> world \<Rightarrow> vstate \<Rightarrow> pystr \<Rightarrow> pystr \<Rightarrow> pystr list
     \<Rightarrow> (pystr \<times> pystr) option \<times> vstate" where
  "try_authority_fallback L W s0 search_query company_url competitors =
     (let (current_time, s1) = read_clock W s0;
          cache_key = take 100 search_query
      in case fresh_authority (authority_cache s1 cache_key) current_time of
           Some cached_result \<Rightarrow> (cached_result, s1)
         | None \<Rightarrow>
             (case try_authority_patterns L W company_url competitors (lower search_query)
                     authority_patterns s1 of
                (Some (final_url, source_name), s2) \<Rightarrow>
                  (let result = (final_url, take 60 search_query @ str '' - '' @ source_name)
                   in (Some result,
                       s2\<lparr>authority_cache := (authority_cache s2)(cache_key \<mapsto> (Some result, current_time))\<rparr>))
              | (None, s2) \<Rightarrow>
                  (None, s2\<lparr>authority_cache := (authority_cache s2)(cache_key \<mapsto> (None, current_time))\<rparr>)))"

text \<open>The structured branch of \<open>_find_alternative_url\<close>: \<open>Some r\<close> when the function
  returns \<open>r\<close> from it, \<open>None\<close> when control reaches the scan of the response text
  (also after one of the two \<open>except\<close> clauses of the branch).\<close>

definition try_structured ::
  "pylib \<Rightarrow> world \<Rightarrow> vstate \<Rightarrow> pystr \<Rightarrow> json \<Rightarrow> pystr \<Rightarrow> pystr list
     \<Rightarrow> (pystr \<times> json) option option \<times> vstate" where
  "try_structured L W s response_text t company_url competitors =
     (case re_search json_url_verified_re response_text of
        None \<Rightarrow> (None, s)
      | Some json_match \<Rightarrow>
          (case json_loads L (matched json_match) of
             None \<Rightarrow> (None, s)
           | Some data \<Rightarrow>
               if truthy (py_get data (str ''verified'')) \<and> truthy (py_get data (str ''url'')) then
                 (case py_get data (str ''url'') of
                    JStr raw_url \<Rightarrow>
                      (let candidate_title = (case map_of data (str ''title'') of
                                                None \<Rightarrow> t | Some v \<Rightarrow> v)
                       in case normalize_url L (strip raw_url) of
                            Inl e \<Rightarrow> (None, s)
                          | Inr candidate_url \<Rightarrow>
                              if should_filter_url L candidate_url company_url competitors
                              then (None, s)
                              else (case check_url_status W s candidate_url of
                                      ((is_valid, final_url), s') \<Rightarrow>
                                        if is_valid then (Some (Some (final_url, candidate_title)), s')
                                        else (None, s')))
                  | _ \<Rightarrow> (None, s))
               else if py_get data (str ''url'') = JStr [] \<and> py_get data (str ''verified'') = JBool False
               then (Some None, s)
               else (None, s)))"

text \<open>The loop over the URLs scanned from the response text. A candidate that is not a
  string, or that does not parse, raises; the caller's outer \<open>except\<close> turns that into
  \<open>None\<close>.\<close>

fun try_candidates ::
  "pylib \<Rightarrow> world \<Rightarrow> pystr \<Rightarrow> json \<Rightarrow> pystr \<Rightarrow> pystr list \<Rightarrow> json list \<Rightarrow> vstate
     \<Rightarrow> (pyexn + (pystr \<times> json) option) \<times> vstate" where
  "try_candidates L W response_text t company_url competitors [] s = (Inr None, s)"
| "try_candidates L W response_text t company_url competitors (candidate # rest) s =
     (if \<not> truthy candidate
      then try_candidates L W response_text t company_url competitors rest s
      else (case candidate of
              JStr raw_url \<Rightarrow>
                (case normalize_url L raw_url of
                   Inl e \<Rightarrow> (Inl e, s)
                 | Inr candidate_url \<Rightarrow>
                     if should_filter_url L candidate_url company_url competitors
                     then try_candidates L W response_text t company_url competitors rest s
                     else (case check_url_status W s candidate_url of
                             ((is_valid, final_url), s') \<Rightarrow>
                               if is_valid then
                                 (let meta_title =
                                        (case extract_title_from_response L response_text candidate_url of
                                           None \<Rightarrow> t
                                         | Some v \<Rightarrow> if truthy v then v else t)
                                  in (Inr (Some (final_url, meta_title)), s'))
                               else try_candidates L W response_text t company_url competitors rest s'))
            | _ \<Rightarrow> (Inl AttributeError, s)))"

definition find_alternative_url ::
  "pylib \<Rightarrow> world \<Rightarrow> vstate \<Rightarrow> json \<Rightarrow> pystr \<Rightarrow> pystr list \<Rightarrow> pystr
     \<Rightarrow> (pyexn + (pystr \<times> json) option) \<times> vstate" where
  "find_alternative_url L W s t company_url competitors language =
     (case build_search_query t of
        Inl e \<Rightarrow> (Inl e, s)
      | Inr search_query \<Rightarrow>
          (case do_generate W s (alternative_prompt search_query company_url competitors) of
             (Inl e, s1) \<Rightarrow>
               (case try_authority_fallback L W s1 search_query company_url competitors of
                  (found, s2) \<Rightarrow> (Inr (map_option (\<lambda>(u, tt). (u, JStr tt)) found), s2))
           | (Inr response_text, s1) \<Rightarrow>
               (case try_structured L W s1 response_text t company_url competitors of
                  (Some r, s2) \<Rightarrow> (Inr r, s2)
                | (None, s2) \<Rightarrow>
                    (case try_candidates L W response_text t company_url competitors
                            (extract_urls_from_response L response_text) s2 of
                       (Inl e, s3) \<Rightarrow> (Inr None, s3)
                     | (Inr r, s3) \<Rightarrow> (Inr r, s3)))))"







text \<open>
  \<open>asyncio.gather\<close> runs one task per citation and returns their results in the order of
  the tasks. The event loop decides the order in which the tasks run; here each task runs
  as one step, in the order \<open>completion_order n schedule\<close>: the indices named by the
  schedule first, then the others. Every index below \<open>n\<close> occurs in it once, for any
  schedule.
\<close>

definition completion_order :: "nat \<Rightarrow> nat list \<Rightarrow> nat list" where
  "completion_order n schedule =
     remdups (filter (\<lambda>i. i < n) schedule) @ filter (\<lambda>i. i \<notin> set schedule) [0..<n]"




text \<open>\<open>extends s s'\<close>: the outbound calls of \<open>s'\<close> are those of \<open>s\<close>, followed by others.\<close>

definition extends :: "vstate \<Rightarrow> vstate \<Rightarrow> bool" where
  "extends s s' = prefix (calls s) (calls s')"





section \<open>Inputs of the examples\<close>

text \<open>A library in which no text decodes as JSON and no bracketed host is accepted.\<close>

definition plain_lib :: pylib where
  "plain_lib = \<lparr>json_loads = (\<lambda>s. None), bracketed_host_ok = (\<lambda>h. False),
                nfkc_netloc_ok = (\<lambda>n. True), py_str = (\<lambda>v. [])\<rparr>"

text \<open>The two lines of the renumbering example: \<open>[5]: http://a.com - A\<close> and
  \<open>[9]: http://b.com - B\<close>, with an en dash (U+2013) as separator.\<close>

definition renumbering_example :: pystr where
  "renumbering_example = str ''[5]: http://a.com '' @ [8211] @ str '' A'' @ [10]
      @ str ''[9]: http://b.com '' @ [8211] @ str '' B''"

text \<open>A state with empty caches; a world in which every request and the assistant time
  out; a world in which the listed URLs answer 200, all others 404, and the assistant
  answers with a given text; a state whose authority cache holds a fresh entry for the
  query \<open>AI study\<close>.\<close>

definition empty_state :: vstate where
  "empty_state = \<lparr>url_status_cache = Map.empty, authority_cache = Map.empty, calls = [],
                    clock_reads = 0\<rparr>"

definition unreachable_world :: world where
  "unreachable_world = \<lparr>http_head = (\<lambda>k u. HttpRaises HttpxTimeoutException),
     http_get = (\<lambda>k u. HttpRaises HttpxTimeoutException),
     generate_content = (\<lambda>k prompt. Inl AsyncTimeoutError),
     time_time = (\<lambda>k. real k)\<rparr>"

definition example_world :: "pystr list \<Rightarrow> pystr \<Rightarrow> world" where
  "example_world alive answer = \<lparr>http_head = (\<lambda>k u. if u \<in> set alive then Response 200 u else Response 404 u),
     http_get = (\<lambda>k u. HttpRaises AsyncTimeoutError),
     generate_content = (\<lambda>k prompt. Inr answer),
     time_time = (\<lambda>k. 0)\<rparr>"

definition cached_state :: vstate where
  "cached_state = empty_state\<lparr>authority_cache :=
     [str ''AI study'' \<mapsto> (Some (str ''https://www.nist.gov/'', str ''AI study - NIST''), 0)]\<rparr>"











section \<open>Properties\<close>

subsection \<open>The parser renumbers\<close>

lemma renumber_zip:
  assumes "length ns = length cs"
  shows "map number (map (\<lambda>(i, c). c\<lparr>number := int i\<rparr>) (zip ns cs)) = map int ns"
    and "map url (map (\<lambda>(i, c). c\<lparr>number := int i\<rparr>) (zip ns cs)) = map url cs"
    and "map title (map (\<lambda>(i, c). c\<lparr>number := int i\<rparr>) (zip ns cs)) = map title cs"
  using assms by (induction ns cs rule: list_induct2) auto

lemma length_enumerate_from_1: "length [1..<Suc (length cs)] = length cs"
  by (simp del: upt_Suc)

lemma number_renumber: "map number (renumber cs) = map int [1..<Suc (length cs)]"
  unfolding renumber_def by (rule renumber_zip(1) [OF length_enumerate_from_1])

lemma url_renumber: "map url (renumber cs) = map url cs"
  unfolding renumber_def by (rule renumber_zip(2) [OF length_enumerate_from_1])

lemma title_renumber: "map title (renumber cs) = map title cs"
  unfolding renumber_def by (rule renumber_zip(3) [OF length_enumerate_from_1])

lemma length_renumber: "length (renumber cs) = length cs"
  unfolding renumber_def by (simp del: upt_Suc)

lemmas parser_re_defs = re_ws_def re_nonws_def re_digit_def re_dot_def re_dash_def re_http_def
  citation_line_re_def citation_line_ws_re_def citation_text_re_def embedded_url_re_def
  url_and_separator_re_def

lemma renumbering_example_parsed:
  "parse_sources (\<lambda>n u t. True) renumbering_example =
     Inr [\<lparr>number = 1, url = str ''http://a.com'', title = JStr (str ''A'')\<rparr>,
          \<lparr>number = 2, url = str ''http://b.com'', title = JStr (str ''B'')\<rparr>]"
  by (simp add: parse_sources_def renumbering_example_def str_def strip_def is_space_def
       parse_line_def parser_re_defs re_match_def is_digit_def group_def py_int_def
       digit_val_def new_citation_def renumber_def Let_def)

text \<open>
  C6. Whatever the sources text, when the parser returns, its citations are numbered
  1, 2, ... in list order: the numbers read from the lines are discarded, while the URLs
  and titles are those of the parsed lines, in the order of the lines. The example of the
  specification (lines numbered 5 and 9) yields the numbers 1 and 2.
\<close>

theorem parse_sources_renumbers:
  assumes "parse_sources ok sources_text = Inr cs"
  shows "map number cs = map int [1..<Suc (length cs)]
       \<and> (\<exists>raw. parse_lines ok (split_on 10 (strip sources_text)) = Inr raw
             \<and> map url cs = map url raw \<and> map title cs = map title raw)"
proof -
  from assms obtain raw where raw: "parse_lines ok (split_on 10 (strip sources_text)) = Inr raw"
    and cs: "cs = renumber raw"
    by (auto simp: parse_sources_def split: sum.splits)
  show ?thesis
    using raw by (simp add: cs number_renumber length_renumber url_renumber title_renumber)
qed

theorem parse_sources_renumbers_witness:
  "parse_sources (\<lambda>n u t. True) renumbering_example =
     Inr [\<lparr>number = 1, url = str ''http://a.com'', title = JStr (str ''A'')\<rparr>,
          \<lparr>number = 2, url = str ''http://b.com'', title = JStr (str ''B'')\<rparr>]
   \<and> map number [\<lparr>number = 1, url = str ''http://a.com'', title = JStr (str ''A'')\<rparr>,
          \<lparr>number = 2, url = str ''http://b.com'', title = JStr (str ''B'')\<rparr>] = [1, 2]"
proof (rule conjI)
  show parsed: "parse_sources (\<lambda>n u t. True) renumbering_example =
     Inr [\<lparr>number = 1, url = str ''http://a.com'', title = JStr (str ''A'')\<rparr>,
          \<lparr>number = 2, url = str ''http://b.com'', title = JStr (str ''B'')\<rparr>]"
    by (rule renumbering_example_parsed)
  show "map number [\<lparr>number = 1, url = str ''http://a.com'', title = JStr (str ''A'')\<rparr>,
          \<lparr>number = 2, url = str ''http://b.com'', title = JStr (str ''B'')\<rparr>] = [1, 2]"
    using parse_sources_renumbers [OF parsed, THEN conjunct1] by simp
qed

subsection \<open>The domain filter\<close>

lemmas urlparse_eval = urlparse_def urlsplit_def split_scheme_def splitnetloc_def split_first_def
  netloc_raises_def checknetloc_raises_def splitparams_def uses_params_def is_ascii_alpha_def
  is_scheme_char_def lower_def lower_cp_def str_def Let_def

lemmas filter_eval = should_filter_url_def should_filter_url_try_def normalize_hostname_def
  is_subdomain_def FORBIDDEN_HOSTS_def competitor_url_def startswith_def endswith_def
  suffix_to_prefix
  lstrip_chars_def url_host_def host_matches_def





text \<open>
  C9. The string \<open>not a url\<close> parses, with an empty network location; a company URL
  written without a scheme, such as \<open>acme.com\<close>, has an empty network location too, and
  the equality test of the filter, which (unlike \<open>_is_subdomain\<close>) does not exclude empty
  hosts, makes the filter return true.
\<close>

theorem should_filter_url_not_a_url_filtered:
  "url_host plain_lib (str ''not a url'') = Some []
   \<and> url_host plain_lib (str ''acme.com'') = Some []
   \<and> should_filter_url plain_lib (str ''not a url'') (str ''acme.com'') []"
  by (simp add: urlparse_eval filter_eval)

subsection \<open>The orchestrator keeps length and positions\<close>


lemma distinct_completion_order: "distinct (completion_order n schedule)"
  by (auto simp: completion_order_def)










subsection \<open>The status cache\<close>

lemmas world_eval = read_clock_def do_head_def do_get_def do_generate_def fresh_status_def
  fresh_authority_def cache_status_def CACHE_TTL_def FAILED_URL_TTL_def

lemma check_url_status_transport_failure:
  assumes "fresh_status (url_status_cache s u) (time_time W (clock_reads s)) = None"
    and "http_head W (length (calls s)) u = HttpRaises e"
  shows "check_url_status W s u =
           ((False, u), s\<lparr>clock_reads := Suc (clock_reads s), calls := calls s @ [Head u]\<rparr>)"
  using assms by (simp add: check_url_status_def read_clock_def do_head_def)

text \<open>
  C3. A request that times out (or fails in transport) is answered \<open>(False, url)\<close> by
  the \<open>except\<close> clauses of \<open>_check_url_status\<close>, which do not write the cache: after the
  first call the cache has no entry for the URL, and a second call one second later sends
  the request again.
\<close>

theorem check_url_status_timeout_not_cached:
  "check_url_status unreachable_world empty_state (str ''https://example.com/a'')
     = ((False, str ''https://example.com/a''),
        empty_state\<lparr>clock_reads := 1, calls := [Head (str ''https://example.com/a'')]\<rparr>)
   \<and> url_status_cache (snd (check_url_status unreachable_world empty_state
         (str ''https://example.com/a''))) (str ''https://example.com/a'') = None
   \<and> time_time unreachable_world 1 - time_time unreachable_world 0 < FAILED_URL_TTL
   \<and> calls (snd (check_url_status unreachable_world
         (snd (check_url_status unreachable_world empty_state (str ''https://example.com/a'')))
         (str ''https://example.com/a'')))
       = [Head (str ''https://example.com/a''), Head (str ''https://example.com/a'')]"
  by (simp add: check_url_status_def world_eval unreachable_world_def empty_state_def)

subsection \<open>The authority cache is read after the assisted search\<close>

lemma extends_refl [simp]: "extends s s"
  by (simp add: extends_def)

lemma extends_trans: "extends s s1 \<Longrightarrow> extends s1 s2 \<Longrightarrow> extends s s2"
  by (auto simp: extends_def)

lemma check_url_status_extends: "extends s (snd (check_url_status W s u))"
  by (auto simp: check_url_status_def extends_def read_clock_def do_head_def do_get_def
      cache_status_def Let_def split: option.splits http_outcome.splits prod.splits)

lemma check_url_status_extendsD: "check_url_status W s u = (r, s') \<Longrightarrow> extends s s'"
  using check_url_status_extends [of s W u] by simp

lemma try_authority_urls_extends:
  "extends s (snd (try_authority_urls L W company_url competitors urls s))"
proof (induction urls arbitrary: s)
  case Nil
  then show ?case by simp
next
  case (Cons a urls)
  obtain base_url source_name where a: "a = (base_url, source_name)" by (cases a)
  show ?case
    using Cons.IH
    by (auto simp: a split: prod.splits dest!: check_url_status_extendsD intro: extends_trans)
qed

lemma try_authority_patterns_extends:
  "extends s (snd (try_authority_patterns L W company_url competitors ql patterns s))"
proof (induction patterns arbitrary: s)
  case Nil
  then show ?case by simp
next
  case (Cons a patterns)
  obtain kws urls where a: "a = (kws, urls)" by (cases a)
  show ?case
    using Cons.IH try_authority_urls_extends [of s L W company_url competitors urls]
    by (auto simp: a split: prod.splits option.splits intro: extends_trans)
qed

lemma try_authority_fallback_extends:
  "extends s (snd (try_authority_fallback L W s q company_url competitors))"
proof -
  have "extends (s\<lparr>clock_reads := Suc (clock_reads s)\<rparr>)
          (snd (try_authority_patterns L W company_url competitors (lower q) authority_patterns
                 (s\<lparr>clock_reads := Suc (clock_reads s)\<rparr>)))"
    by (rule try_authority_patterns_extends)
  then show ?thesis
    by (auto simp: try_authority_fallback_def read_clock_def extends_def Let_def
        split: option.splits prod.splits)
qed

lemma try_structured_extends:
  "extends s (snd (try_structured L W s response_text t company_url competitors))"
  by (auto simp: try_structured_def Let_def split: option.splits json.splits sum.splits prod.splits
      dest!: check_url_status_extendsD)

lemma try_candidates_extends:
  "extends s (snd (try_candidates L W response_text t company_url competitors cands s))"
proof (induction cands arbitrary: s)
  case Nil
  then show ?case by simp
next
  case (Cons c cands)
  show ?case
    using Cons.IH
    by (auto simp: Let_def split: json.splits sum.splits prod.splits
        dest!: check_url_status_extendsD intro: extends_trans)
qed

lemma find_alternative_url_generates:
  assumes "build_search_query t = Inr q"
  shows "prefix (calls s @ [Generate (alternative_prompt q company_url competitors)])
           (calls (snd (find_alternative_url L W s t company_url competitors language)))"
proof -
  let ?s1 = "s\<lparr>calls := calls s @ [Generate (alternative_prompt q company_url competitors)]\<rparr>"
  have a: "extends ?s1 (snd (try_authority_fallback L W ?s1 q company_url competitors))"
    by (rule try_authority_fallback_extends)
  have b: "\<And>answer. extends ?s1 (snd (try_structured L W ?s1 answer t company_url competitors))"
    by (rule try_structured_extends)
  have c: "\<And>answer s2. extends s2 (snd (try_candidates L W answer t company_url competitors
             (extract_urls_from_response L answer) s2))"
    by (rule try_candidates_extends)
  show ?thesis
  proof (cases "generate_content W (length (calls s)) (alternative_prompt q company_url competitors)")
    case (Inl e)
    then show ?thesis using a assms
      by (auto simp: find_alternative_url_def do_generate_def extends_def split: prod.splits)
  next
    case (Inr answer)
    obtain r s2 where ts: "try_structured L W ?s1 answer t company_url competitors = (r, s2)"
      by (metis prod.exhaust)
    have e2: "extends ?s1 s2" using b [of answer] ts by simp
    show ?thesis
    proof (cases r)
      case None
      obtain r3 s3 where tc: "try_candidates L W answer t company_url competitors
             (extract_urls_from_response L answer) s2 = (r3, s3)"
        by (metis prod.exhaust)
      have "extends s2 s3" using c [of s2 answer] tc by simp
      with e2 have "extends ?s1 s3" by (rule extends_trans)
      then show ?thesis using assms Inr ts None tc
        by (auto simp: find_alternative_url_def do_generate_def extends_def split: sum.splits)
    next
      case (Some a)
      then show ?thesis using assms Inr ts e2
        by (auto simp: find_alternative_url_def do_generate_def extends_def)
    qed
  qed
qed

lemmas parser_eval = str_def strip_def is_space_def re_match_def is_digit_def group_def Let_def

lemma build_search_query_example: "build_search_query (JStr (str ''AI study'')) = Inr (str ''AI study'')"
  by (simp add: build_search_query_def citation_marker_re_def re_digit_def parser_eval)


lemmas response_eval = try_structured_def extract_urls_from_response_def json_url_verified_re_def
  json_url_re_def json_meta_title_re_def json_object_re_def url_token_re_def re_notbrace_def
  re_http_def re_match_def str_def is_space_def py_get_def rstrip_chars_def

text \<open>
  C4 (as amended). \<open>_find_alternative_url\<close> calls the assistant first, whatever the
  authority cache holds. The cache is read only when that call times out or raises: then
  a fresh entry for the query (its first 100 characters) is the result, and no request
  is sent.
\<close>

theorem find_alternative_url_cache_after_search:
  assumes "build_search_query t = Inr q"
  shows "prefix (calls s @ [Generate (alternative_prompt q company_url competitors)])
           (calls (snd (find_alternative_url L W s t company_url competitors language)))
       \<and> (\<forall>e cached ts.
             generate_content W (length (calls s)) (alternative_prompt q company_url competitors) = Inl e
             \<longrightarrow> authority_cache s (take 100 q) = Some (cached, ts)
             \<longrightarrow> time_time W (clock_reads s) - ts < CACHE_TTL
             \<longrightarrow> find_alternative_url L W s t company_url competitors language
                   = (Inr (map_option (\<lambda>(u, tt). (u, JStr tt)) cached),
                      s\<lparr>calls := calls s @ [Generate (alternative_prompt q company_url competitors)],
                        clock_reads := Suc (clock_reads s)\<rparr>))"
  using find_alternative_url_generates [OF assms, of s company_url competitors L W language] assms
  by (auto simp: find_alternative_url_def do_generate_def try_authority_fallback_def
      read_clock_def fresh_authority_def Let_def)

theorem find_alternative_url_cache_after_search_witness:
  "build_search_query (JStr (str ''AI study'')) = Inr (str ''AI study'')
   \<and> generate_content unreachable_world (length (calls cached_state))
         (alternative_prompt (str ''AI study'') (str ''https://acme.com'') []) = Inl AsyncTimeoutError
   \<and> authority_cache cached_state (take 100 (str ''AI study''))
       = Some (Some (str ''https://www.nist.gov/'', str ''AI study - NIST''), 0)
   \<and> time_time unreachable_world (clock_reads cached_state) - 0 < CACHE_TTL
   \<and> find_alternative_url plain_lib unreachable_world cached_state (JStr (str ''AI study''))
         (str ''https://acme.com'') [] (str ''en'')
       = (Inr (Some (str ''https://www.nist.gov/'', JStr (str ''AI study - NIST''))),
          cached_state\<lparr>calls := [Generate (alternative_prompt (str ''AI study'')
                                      (str ''https://acme.com'') [])],
                        clock_reads := 1\<rparr>)"
proof -
  have g: "generate_content unreachable_world (length (calls cached_state))
         (alternative_prompt (str ''AI study'') (str ''https://acme.com'') []) = Inl AsyncTimeoutError"
    by (simp add: unreachable_world_def)
  have c: "authority_cache cached_state (take 100 (str ''AI study''))
       = Some (Some (str ''https://www.nist.gov/'', str ''AI study - NIST''), 0)"
    by (simp add: cached_state_def empty_state_def str_def)
  have f: "time_time unreachable_world (clock_reads cached_state) - 0 < CACHE_TTL"
    by (simp add: unreachable_world_def cached_state_def empty_state_def CACHE_TTL_def)
  note r = find_alternative_url_cache_after_search [OF build_search_query_example,
      of cached_state "str ''https://acme.com''" "[]" plain_lib unreachable_world "str ''en''",
      THEN conjunct2, rule_format, OF g c f]
  show ?thesis
    using build_search_query_example g c f r
    by (simp add: cached_state_def empty_state_def)
qed

text \<open>The claim as stated fails: with a fresh entry for the query in the authority
  cache, the assistant is called all the same, and its answer (here one without any URL)
  decides the result, not the cached entry.\<close>

theorem find_alternative_url_fresh_cache_counterexample:
  "authority_cache cached_state (take 100 (str ''AI study''))
     = Some (Some (str ''https://www.nist.gov/'', str ''AI study - NIST''), 0)
   \<and> time_time (example_world [] (str ''No source found.'')) (clock_reads cached_state) - 0 < CACHE_TTL
   \<and> find_alternative_url plain_lib (example_world [] (str ''No source found.'')) cached_state
         (JStr (str ''AI study'')) (str ''https://acme.com'') [] (str ''en'')
       = (Inr None,
          cached_state\<lparr>calls := [Generate (alternative_prompt (str ''AI study'')
                                      (str ''https://acme.com'') [])]\<rparr>)"
proof -
  have "find_alternative_url plain_lib (example_world [] (str ''No source found.'')) cached_state
         (JStr (str ''AI study'')) (str ''https://acme.com'') [] (str ''en'')
       = (Inr None,
          cached_state\<lparr>calls := [Generate (alternative_prompt (str ''AI study'')
                                      (str ''https://acme.com'') [])]\<rparr>)"
    by (simp add: find_alternative_url_def build_search_query_example do_generate_def
        example_world_def cached_state_def empty_state_def)
       (simp add: response_eval)
  then show ?thesis
    by (simp add: cached_state_def empty_state_def example_world_def CACHE_TTL_def str_def)
qed

subsection \<open>The specific-page resolver\<close>







subsection \<open>An exception in one unit of work\<close>






















subsection \<open>Alternatives are accepted only after the filter and a status check\<close>
























subsection \<open>Normalizing a URL\<close>


lemma clean_append [simp]: "clean (xs @ ys) = (clean xs \<and> clean ys)"
  by (auto simp: clean_def)

lemma clean_Cons [simp]: "clean (c # s) = (c \<noteq> 9 \<and> c \<noteq> 13 \<and> c \<noteq> 10 \<and> clean s)"
  by (auto simp: clean_def)

lemma clean_Nil [simp]: "clean []"
  by (simp add: clean_def)


























lemma tracking_prefix_name:
  assumes "61 \<notin> set pre"
  shows "prefix pre (lower (takeWhile (\<lambda>c. c \<noteq> 61) param)) = prefix pre (lower param)"
  using assms
proof (induction param arbitrary: pre)
  case Nil
  then show ?case by simp
next
  case (Cons c param)
  show ?case
  proof (cases pre)
    case Nil
    then show ?thesis by simp
  next
    case (Cons d pre')
    have l: "lower_cp 61 = 61" by (simp add: lower_cp_def)
    show ?thesis
    proof (cases "c = 61")
      case True
      with Cons Cons.prems l show ?thesis by (auto simp: lower_def)
    next
      case False
      with Cons Cons.prems Cons.IH [of pre'] show ?thesis by (auto simp: lower_def)
    qed
  qed
qed

text \<open>The test on the whole parameter is the test on its name, the part before \<open>=\<close>.\<close>

lemma is_tracking_param_name:
  "is_tracking_param (takeWhile (\<lambda>c. c \<noteq> 61) param) = is_tracking_param param"
  by (simp add: is_tracking_param_def startswith_def tracking_prefix_name str_def)





end
